theory Spec2Isabelle
  imports Complex_Main "HOL-Library.Word"
begin

section \<open>Damascus pattern playground: materials, operations and the pattern generator\<close>

text \<open>
  The development embeds the TypeScript of the page component: the material catalog,
  \<open>generatePattern\<close>, \<open>instructionsFromOps\<close> and the share-link helpers \<open>encode\<close> and
  \<open>decode\<close>.

  The raster sizes \<open>width\<close> and \<open>height\<close> are natural numbers, as the loop
  counters \<open>x\<close> and \<open>y\<close> are.
\<close>

subsection \<open>Types and materials\<close>

datatype MaterialType =
    M1084 | M15N20 | M1095 | M80CrV2 | M52100 | M5160 | PureNickel | WroughtIron

datatype Operation =
    AddSheets MaterialType real
  | Twist real
  | Ladder real real
  | Raindrops real real
  | WFolds real
  | Fold real
  | Stretch real

record material_info =
  name :: string
  etch :: real

fun MATERIAL_CATALOG :: "MaterialType \<Rightarrow> material_info" where
  "MATERIAL_CATALOG M1084 = \<lparr>name = ''1084'', etch = 0.15\<rparr>"
| "MATERIAL_CATALOG M15N20 = \<lparr>name = ''15N20'', etch = 0.85\<rparr>"
| "MATERIAL_CATALOG M1095 = \<lparr>name = ''1095'', etch = 0.12\<rparr>"
| "MATERIAL_CATALOG M80CrV2 = \<lparr>name = ''80CrV2'', etch = 0.18\<rparr>"
| "MATERIAL_CATALOG M52100 = \<lparr>name = ''52100'', etch = 0.2\<rparr>"
| "MATERIAL_CATALOG M5160 = \<lparr>name = ''5160'', etch = 0.22\<rparr>"
| "MATERIAL_CATALOG PureNickel = \<lparr>name = ''Pure Nickel'', etch = 0.95\<rparr>"
| "MATERIAL_CATALOG WroughtIron = \<lparr>name = ''Wrought Iron'', etch = 0.35\<rparr>"

abbreviation MATERIALS :: "MaterialType \<Rightarrow> material_info" where
  "MATERIALS \<equiv> MATERIAL_CATALOG"

subsection \<open>Numbers of the platform\<close>

text \<open>
  A JavaScript \<open>number\<close> is a real number or one of \<open>Infinity\<close>, \<open>-Infinity\<close> and
  \<open>NaN\<close>. The arithmetic of two real numbers is exact, without the rounding of IEEE
  doubles, and a result of magnitude \<open>2^1024\<close> or more overflows to the infinity of its
  sign. Negative zero is not told from zero.
\<close>

datatype number = Num real | PosInfinity | NegInfinity | NaN

definition overflow :: "real \<Rightarrow> number" where
  "overflow x =
     (if 2 ^ 1024 \<le> x then PosInfinity
      else if x \<le> - (2 ^ 1024) then NegInfinity
      else Num x)"

definition infinity_of :: "bool \<Rightarrow> number" where
  "infinity_of positive = (if positive then PosInfinity else NegInfinity)"

fun is_positive :: "number \<Rightarrow> bool" where
  "is_positive (Num x) = (0 < x)"
| "is_positive PosInfinity = True"
| "is_positive NegInfinity = False"
| "is_positive NaN = False"

fun negate :: "number \<Rightarrow> number" where
  "negate (Num x) = Num (- x)"
| "negate PosInfinity = NegInfinity"
| "negate NegInfinity = PosInfinity"
| "negate NaN = NaN"

instantiation number :: "{plus, minus, times, inverse}"
begin

fun plus_number :: "number \<Rightarrow> number \<Rightarrow> number" where
  "plus_number (Num x) (Num y) = overflow (x + y)"
| "plus_number NaN b = NaN"
| "plus_number a NaN = NaN"
| "plus_number PosInfinity NegInfinity = NaN"
| "plus_number NegInfinity PosInfinity = NaN"
| "plus_number PosInfinity b = PosInfinity"
| "plus_number NegInfinity b = NegInfinity"
| "plus_number (Num x) b = b"

definition minus_number :: "number \<Rightarrow> number \<Rightarrow> number" where
  "minus_number a b = a + negate b"

fun times_number :: "number \<Rightarrow> number \<Rightarrow> number" where
  "times_number (Num x) (Num y) = overflow (x * y)"
| "times_number NaN b = NaN"
| "times_number a NaN = NaN"
| "times_number a b =
     (if a = Num 0 \<or> b = Num 0 then NaN else infinity_of (is_positive a = is_positive b))"

fun divide_number :: "number \<Rightarrow> number \<Rightarrow> number" where
  "divide_number (Num x) (Num y) =
     (if y = 0 then (if x = 0 then NaN else infinity_of (0 < x)) else overflow (x / y))"
| "divide_number NaN b = NaN"
| "divide_number a NaN = NaN"
| "divide_number (Num x) b = Num 0"
| "divide_number a (Num y) = infinity_of (is_positive a = (0 \<le> y))"
| "divide_number a b = NaN"

definition inverse_number :: "number \<Rightarrow> number" where
  "inverse_number a = divide (Num 1) a"

instance ..

end

text \<open>
  \<open>a % b\<close> is the remainder of the division truncated towards zero, so it has the sign
  of \<open>a\<close>; it is \<open>NaN\<close> when \<open>a\<close> is not finite or \<open>b\<close> is zero, and \<open>a\<close> when only
  \<open>b\<close> is infinite.
\<close>

definition js_trunc :: "real \<Rightarrow> int" where
  "js_trunc a = (if 0 \<le> a then \<lfloor>a\<rfloor> else \<lceil>a\<rceil>)"

definition fmod :: "real \<Rightarrow> real \<Rightarrow> real" where
  "fmod a b = a - b * of_int (js_trunc (a / b))"

fun js_rem :: "number \<Rightarrow> number \<Rightarrow> number" where
  "js_rem (Num x) (Num y) = (if y = 0 then NaN else Num (fmod x y))"
| "js_rem (Num x) PosInfinity = Num x"
| "js_rem (Num x) NegInfinity = Num x"
| "js_rem a b = NaN"

text \<open>The functions of \<open>Math\<close> that the generator calls.\<close>

fun js_floor :: "number \<Rightarrow> number" where
  "js_floor (Num x) = Num (of_int \<lfloor>x\<rfloor>)"
| "js_floor a = a"

fun js_abs :: "number \<Rightarrow> number" where
  "js_abs (Num x) = Num \<bar>x\<bar>"
| "js_abs NaN = NaN"
| "js_abs a = PosInfinity"

fun js_sqrt :: "number \<Rightarrow> number" where
  "js_sqrt (Num x) = (if x < 0 then NaN else Num (sqrt x))"
| "js_sqrt PosInfinity = PosInfinity"
| "js_sqrt a = NaN"

fun js_sin :: "number \<Rightarrow> number" where
  "js_sin (Num x) = Num (sin x)"
| "js_sin a = NaN"

fun js_max :: "number \<Rightarrow> number \<Rightarrow> number" where
  "js_max (Num x) (Num y) = Num (max x y)"
| "js_max NaN b = NaN"
| "js_max a NaN = NaN"
| "js_max PosInfinity b = PosInfinity"
| "js_max a PosInfinity = PosInfinity"
| "js_max NegInfinity b = b"
| "js_max a NegInfinity = a"

text \<open>\<open>Math.pow(2, k)\<close> for the exponents the generator gives it, the integers from zero.\<close>

definition js_pow2 :: "int \<Rightarrow> number" where
  "js_pow2 k = overflow (2 ^ nat k)"

text \<open>
  A number is finite when it is a real number; it is in range when it is not a real
  number of magnitude \<open>2^1024\<close> or more, which no double is.
\<close>

fun is_finite :: "number \<Rightarrow> bool" where
  "is_finite (Num x) = True"
| "is_finite a = False"

fun in_range :: "number \<Rightarrow> bool" where
  "in_range (Num x) = (\<bar>x\<bar> < 2 ^ 1024)"
| "in_range a = True"

text \<open>
  Storing a number into a \<open>Uint8ClampedArray\<close> clamps it to \<open>0..255\<close> and rounds it to
  the nearest integer, a tie to the even one.
\<close>

definition to_uint8_clamp :: "real \<Rightarrow> 8 word" where
  "to_uint8_clamp v =
     (if v \<le> 0 then 0
      else if 255 \<le> v then 255
      else let f = \<lfloor>v\<rfloor> in
        if of_int f + 0.5 < v then word_of_int (f + 1)
        else if v < of_int f + 0.5 then word_of_int f
        else if even f then word_of_int f
        else word_of_int (f + 1))"

subsection \<open>The canvas\<close>

text \<open>
  A canvas is its size and its bitmap, four bytes (red, green, blue, alpha) a pixel, row
  after row. A new canvas is transparent black.
\<close>

record canvas =
  cwidth :: nat
  cheight :: nat
  cdata :: "8 word list"

definition createCanvas :: "nat \<Rightarrow> nat \<Rightarrow> canvas" where
  "createCanvas w h = \<lparr>cwidth = w, cheight = h, cdata = replicate (w * h * 4) 0\<rparr>"

text \<open>\<open>fillRect(0, 0, width, height)\<close> with the fill style \<open>#111\<close> on the whole canvas.\<close>

definition background :: "8 word list" where
  "background = [0x11, 0x11, 0x11, 255]"

definition fillRect_all :: "canvas \<Rightarrow> 8 word list \<Rightarrow> canvas" where
  "fillRect_all c px = c\<lparr>cdata := concat (replicate (cwidth c * cheight c) px)\<rparr>"

text \<open>The pixel of a canvas at column \<open>x\<close> and row \<open>y\<close>: the four bytes at \<open>(y * width + x) * 4\<close>.\<close>

definition pixel_at :: "canvas \<Rightarrow> nat \<Rightarrow> nat \<Rightarrow> 8 word list" where
  "pixel_at c x y = take 4 (drop ((y * cwidth c + x) * 4) (cdata c))"

text \<open>The bitmap whose pixel \<open>(x, y)\<close> is \<open>p x y\<close>, row after row.\<close>

definition raster_of :: "(nat \<Rightarrow> nat \<Rightarrow> 8 word list) \<Rightarrow> nat \<Rightarrow> nat \<Rightarrow> 8 word list" where
  "raster_of p w h = concat (map (\<lambda>y. concat (map (\<lambda>x. p x y) [0..<w])) [0..<h])"

subsection \<open>The per-pixel pipeline\<close>

text \<open>
  One step of the loop \<open>for (const op of ops)\<close> on the working coordinates \<open>(uu, vv)\<close>;
  \<open>repeats\<close> is the length of the stack. The parameters of an operation are real
  numbers. An operation of kind \<open>addSheets\<close> matches no branch of the chain.
\<close>

fun apply_op :: "nat \<Rightarrow> Operation \<Rightarrow> number \<times> number \<Rightarrow> number \<times> number" where
  "apply_op repeats (Twist turns) (uu, vv) =
     (uu, vv + (js_sin (uu * Num pi * Num 2 * Num turns) * Num 0.5)
                 / Num (max 1 (real repeats)))"
| "apply_op repeats (Ladder spacing depth) (uu, vv) =
     (let t = js_rem (uu / Num (max 0.0001 spacing)) (Num 1);
          tri = Num 1 - js_abs (Num 0.5 - t) * Num 2
      in (uu, vv - tri * Num 0.25 * Num depth))"
| "apply_op repeats (Raindrops radius spacing) (uu, vv) =
     (let cx = js_floor (uu / Num (max 0.0001 spacing));
          cy = js_floor (vv / Num (max 0.0001 spacing));
          dx = uu - cx * Num spacing - Num spacing * Num 0.5;
          dy = vv - cy * Num spacing - Num spacing * Num 0.5;
          d = js_sqrt (dx * dx + dy * dy);
          influence = js_max (Num 0) (Num 1 - d / Num (max 0.0001 radius))
      in (uu, vv - influence * Num 0.15))"
| "apply_op repeats (WFolds folds) (uu, vv) =
     (let w = Num folds;
          saw = js_rem (uu * w) (Num 1) - Num 0.5
      in (uu, js_abs (vv + saw * Num 0.5)))"
| "apply_op repeats (Fold ntimes) (uu, vv) =
     (uu, vv * js_pow2 (max 0 \<lfloor>ntimes\<rfloor>))"
| "apply_op repeats (Stretch factor) (uu, vv) = (uu * Num factor, vv)"
| "apply_op repeats (AddSheets material count) (uu, vv) = (uu, vv)"

fun run_ops :: "nat \<Rightarrow> Operation list \<Rightarrow> number \<times> number \<Rightarrow> number \<times> number" where
  "run_ops repeats [] c = c"
| "run_ops repeats (op # ops) c = run_ops repeats ops (apply_op repeats op c)"

text \<open>The wrap \<open>vv = ((vv % 1) + 1) % 1\<close>.\<close>

definition wrap :: "number \<Rightarrow> number" where
  "wrap vv = js_rem (js_rem vv (Num 1) + Num 1) (Num 1)"

text \<open>
  The layer index of the pixel whose coordinates in the unit square are \<open>(u, v)\<close>:
  the operations, the wrap and \<open>Math.floor(vv * repeats)\<close>.
\<close>

definition layer_index_uv :: "nat \<Rightarrow> Operation list \<Rightarrow> number \<Rightarrow> number \<Rightarrow> number" where
  "layer_index_uv repeats ops u v =
     js_floor (wrap (snd (run_ops repeats ops (u, v))) * Num (real repeats))"

definition layer_index :: "nat \<Rightarrow> Operation list \<Rightarrow> nat \<Rightarrow> nat \<Rightarrow> nat \<Rightarrow> nat \<Rightarrow> number" where
  "layer_index repeats ops width height x y =
     layer_index_uv repeats ops (Num (real x) / Num (real width))
       (Num (real y) / Num (real height))"

text \<open>
  \<open>MATERIALS[layers[idx]]\<close> followed by \<open>mat.etch\<close>: an index that is not a whole
  number of the array's range reads \<open>undefined\<close>, the catalog has no such key, and
  reading \<open>etch\<close> of \<open>undefined\<close> throws a \<open>TypeError\<close>.
\<close>

datatype error = TypeError | IndexSizeError | InvalidCharacterError | URIError | SyntaxError

fun layer_material :: "MaterialType list \<Rightarrow> number \<Rightarrow> error + material_info" where
  "layer_material layers (Num i) =
     (if i = of_int \<lfloor>i\<rfloor> \<and> 0 \<le> i \<and> i < real (length layers)
      then Inr (MATERIALS (layers ! nat \<lfloor>i\<rfloor>))
      else Inl TypeError)"
| "layer_material layers idx = Inl TypeError"

text \<open>The four bytes written for a material: \<open>s\<close> three times and an opaque alpha.\<close>

definition material_pixel :: "material_info \<Rightarrow> 8 word list" where
  "material_pixel mat =
     (let s = max 0 (min 1 (etch mat)) * 255
      in [to_uint8_clamp s, to_uint8_clamp s, to_uint8_clamp s, 255])"

definition pixel :: "MaterialType list \<Rightarrow> Operation list \<Rightarrow> nat \<Rightarrow> nat \<Rightarrow> nat \<Rightarrow> nat
    \<Rightarrow> error + 8 word list" where
  "pixel layers ops width height x y =
     (case layer_material layers (layer_index (length layers) ops width height x y) of
        Inl e \<Rightarrow> Inl e
      | Inr mat \<Rightarrow> Inr (material_pixel mat))"

text \<open>A loop that stops at the first exception.\<close>

fun traverse :: "('a \<Rightarrow> error + 'b) \<Rightarrow> 'a list \<Rightarrow> error + 'b list" where
  "traverse f [] = Inr []"
| "traverse f (a # as) =
     (case f a of
        Inl e \<Rightarrow> Inl e
      | Inr b \<Rightarrow> (case traverse f as of Inl e \<Rightarrow> Inl e | Inr bs \<Rightarrow> Inr (b # bs)))"

text \<open>
  \<open>generatePattern\<close>. The first argument says whether \<open>canvas.getContext('2d')\<close> gave a
  context; without one the new canvas is returned as it is. \<open>createImageData\<close> throws an
  \<open>IndexSizeError\<close> for a width or a height of zero. The two loops run over the rows \<open>y\<close>
  and, in each row, over the columns \<open>x\<close>; the pixel \<open>(x, y)\<close> is written at
  \<open>(y * width + x) * 4\<close>, which is its place in the rows laid end to end.
\<close>

definition pixel_row :: "MaterialType list \<Rightarrow> Operation list \<Rightarrow> nat \<Rightarrow> nat \<Rightarrow> nat
    \<Rightarrow> error + 8 word list" where
  "pixel_row layers ops width height y =
     (case traverse (\<lambda>x. pixel layers ops width height x y) [0..<width] of
        Inl e \<Rightarrow> Inl e
      | Inr pxs \<Rightarrow> Inr (concat pxs))"

definition generatePattern :: "bool \<Rightarrow> MaterialType list \<Rightarrow> Operation list \<Rightarrow> nat \<Rightarrow> nat
    \<Rightarrow> error + canvas" where
  "generatePattern ctx layers ops width height =
     (let canvas = createCanvas width height in
      if \<not> ctx then Inr canvas
      else if layers = [] then Inr (fillRect_all canvas background)
      else if width = 0 \<or> height = 0 then Inl IndexSizeError
      else (case traverse (pixel_row layers ops width height) [0..<height] of
              Inl e \<Rightarrow> Inl e
            | Inr rows \<Rightarrow> Inr (canvas\<lparr>cdata := concat rows\<rparr>)))"

subsection \<open>Notions of the specification\<close>

text \<open>The operation list with every \<open>addSheets\<close> entry removed.\<close>

fun is_addSheets :: "Operation \<Rightarrow> bool" where
  "is_addSheets (AddSheets material count) = True"
| "is_addSheets other = False"

definition without_addSheets :: "Operation list \<Rightarrow> Operation list" where
  "without_addSheets ops = filter (\<lambda>op. \<not> is_addSheets op) ops"




text \<open>
  The ladder transform in the words of the specification: \<open>t = (uu / spacing) mod 1\<close>,
  \<open>tri = 1 - |0.5 - t| * 2\<close>, \<open>vv -= tri * 0.25 * depth\<close>, with \<open>uu\<close> as it was.
\<close>

definition ladder_spec :: "real \<Rightarrow> real \<Rightarrow> number \<times> number \<Rightarrow> number \<times> number" where
  "ladder_spec spacing depth c =
     (let uu = fst c; vv = snd c;
          t = js_rem (uu / Num spacing) (Num 1);
          tri = Num 1 - js_abs (Num 0.5 - t) * Num 2
      in (uu, vv - tri * Num 0.25 * Num depth))"





section \<open>The instruction formatter\<close>











section \<open>The share link\<close>

text \<open>
  The page puts \<open>encode({ layers, ops })\<close> into the \<open>recipe\<close> parameter of a link and
  reads a link with \<open>decode\<close>:

  \<^verbatim>\<open>encode = (obj) => encodeURIComponent(btoa(unescape(encodeURIComponent(JSON.stringify(obj)))))\<close>

  \<^verbatim>\<open>decode = (s) => JSON.parse(decodeURIComponent(escape(atob(s))))\<close>

  The functions of the platform are modelled on strings of code units of eight bits,
  which hold every text of a recipe and every string of bytes.
\<close>

subsection \<open>Percent escapes\<close>



definition hex_value :: "char \<Rightarrow> nat option" where
  "hex_value c =
     (let n = of_char c :: nat
      in if 48 \<le> n \<and> n \<le> 57 then Some (n - 48)
         else if 65 \<le> n \<and> n \<le> 70 then Some (n - 55)
         else if 97 \<le> n \<and> n \<le> 102 then Some (n - 87)
         else None)"









text \<open>
  \<open>decodeURIComponent\<close> reads the percent escapes and decodes the bytes as UTF-8; a
  \<open>%\<close> without two hexadecimal digits and a malformed sequence throw \<open>URIError\<close>.
  The model decodes the sequences of the code points below \<open>256\<close>: one byte below
  \<open>128\<close>, or \<open>0xC2\<close> or \<open>0xC3\<close> and a continuation byte. The longer sequences stand
  for code points that no string of the model holds; they are reported as the malformed
  ones are.
\<close>

datatype uri_token = Literal char | Escaped nat

fun uri_tokens :: "string \<Rightarrow> error + uri_token list" where
  "uri_tokens [] = Inr []"
| "uri_tokens (c # rest) =
     (if c \<noteq> CHR ''%'' then
        (case uri_tokens rest of Inl e \<Rightarrow> Inl e | Inr ts \<Rightarrow> Inr (Literal c # ts))
      else
        (case rest of
           a # b # rest' \<Rightarrow>
             (case (hex_value a, hex_value b) of
                (Some h, Some l) \<Rightarrow>
                  (case uri_tokens rest' of Inl e \<Rightarrow> Inl e | Inr ts \<Rightarrow> Inr (Escaped (h * 16 + l) # ts))
              | _ \<Rightarrow> Inl URIError)
         | _ \<Rightarrow> Inl URIError))"



subsection \<open>Base64\<close>










subsection \<open>Encoding and decoding a recipe\<close>














section \<open>Properties of the pattern generator\<close>

subsection \<open>Numbers in range, the remainder and the wrap\<close>

lemma overflow_in_range: "\<bar>x\<bar> < 2 ^ 1024 \<Longrightarrow> overflow x = Num x"
  by (auto simp add: overflow_def)

lemma two_pow_32_small: "(2::real) ^ 32 < 2 ^ 1024"
  by (rule power_strict_increasing) simp_all

lemma overflow_small: "\<bar>x\<bar> \<le> 2 ^ 32 \<Longrightarrow> overflow x = Num x"
  using two_pow_32_small by (intro overflow_in_range) linarith

lemma in_range_overflow [simp]: "in_range (overflow x)"
  by (auto simp add: overflow_def)

lemma in_range_infinity_of [simp]: "in_range (infinity_of p)"
  by (simp add: infinity_of_def)

lemma in_range_plus [simp]: "in_range (a + b)"
  by (cases a; cases b) simp_all

lemma in_range_negate [simp]: "in_range (negate a) = in_range a"
  by (cases a) simp_all

lemma in_range_minus [simp]: "in_range (a - b)"
  by (simp add: minus_number_def)

lemma in_range_times [simp]: "in_range (a * b)"
  by (cases a; cases b) simp_all

lemma in_range_divide [simp]: "in_range (a / b)"
  by (cases a; cases b) simp_all

lemma in_range_abs [simp]: "in_range (js_abs a) = in_range a"
  by (cases a) simp_all



lemma fmod_one: "fmod a 1 = a - of_int (js_trunc a)"
  by (simp add: fmod_def)

lemma fmod_one_bounds: "- 1 < fmod a 1 \<and> fmod a 1 < 1"
  unfolding fmod_one js_trunc_def by (simp; linarith)

lemma fmod_one_nonneg: "0 \<le> a \<Longrightarrow> 0 \<le> fmod a 1"
  unfolding fmod_one js_trunc_def by (simp; linarith)



lemma wrap_Num: "wrap (Num a) = Num (fmod (fmod a 1 + 1) 1)"
proof -
  have "\<bar>fmod a 1 + 1\<bar> \<le> 2 ^ 32"
    using fmod_one_bounds [of a] by simp
  then show ?thesis
    by (simp add: wrap_def overflow_small)
qed

lemma wrap_real_bounds: "0 \<le> fmod (fmod a 1 + 1) 1 \<and> fmod (fmod a 1 + 1) 1 < 1"
proof -
  have "0 \<le> fmod a 1 + 1"
    using fmod_one_bounds [of a] by simp
  then show ?thesis
    using fmod_one_nonneg [of "fmod a 1 + 1"] fmod_one_bounds [of "fmod a 1 + 1"] by simp
qed



lemma wrap_not_finite: "\<not> is_finite a \<Longrightarrow> wrap a = NaN"
  by (cases a) (simp_all add: wrap_def)

text \<open>The layer index and the lookup when the working coordinate is finite.\<close>

lemma layer_index_finite:
  assumes "snd (run_ops repeats ops (u, v)) = Num a" and "repeats < 2 ^ 32"
  shows "layer_index_uv repeats ops u v
     = Num (of_int \<lfloor>fmod (fmod a 1 + 1) 1 * real repeats\<rfloor>)"
proof -
  let ?w = "fmod (fmod a 1 + 1) 1"
  have w: "0 \<le> ?w" "?w < 1"
    using wrap_real_bounds by auto
  have "real repeats \<le> 2 ^ 32"
    using assms(2) by (metis less_imp_le of_nat_le_iff of_nat_numeral of_nat_power)
  moreover have "0 \<le> ?w * real repeats"
    using w by simp
  moreover have "?w * real repeats \<le> real repeats"
    using w by (simp add: mult_left_le_one_le)
  ultimately have "\<bar>?w * real repeats\<bar> \<le> 2 ^ 32"
    by linarith
  then show ?thesis
    by (simp add: layer_index_uv_def assms(1) wrap_Num overflow_small)
qed

lemma layer_material_finite:
  assumes "0 < length layers"
  shows "layer_material layers
      (Num (of_int \<lfloor>fmod (fmod a 1 + 1) 1 * real (length layers)\<rfloor>))
     = Inr (MATERIALS (layers ! nat \<lfloor>fmod (fmod a 1 + 1) 1 * real (length layers)\<rfloor>))"
proof -
  let ?w = "fmod (fmod a 1 + 1) 1"
  let ?n = "length layers"
  have w: "0 \<le> ?w" "?w < 1"
    using wrap_real_bounds by auto
  have "0 \<le> ?w * real ?n"
    using w by simp
  moreover have "?w * real ?n < real ?n"
    using w assms by simp
  ultimately have "0 \<le> \<lfloor>?w * real ?n\<rfloor>" "\<lfloor>?w * real ?n\<rfloor> < int ?n"
    by (simp_all add: floor_less_iff)
  then show ?thesis
    by simp
qed

lemma layer_material_not_finite: "\<not> is_finite idx \<Longrightarrow> layer_material layers idx = Inl TypeError"
  by (cases idx) simp_all

subsection \<open>The loops\<close>


lemma length_concat_blocks:
  "(\<And>j. j < i \<Longrightarrow> length (f j) = k) \<Longrightarrow> length (concat (map f [0..<i])) = i * k"
  by (induction i) auto

lemma drop_concat_blocks:
  assumes len: "\<And>j. j < n \<Longrightarrow> length (f j) = k" and i: "i < n"
  shows "drop (i * k) (concat (map f [0..<n])) = f i @ concat (map f [Suc i..<n])"
proof -
  have "[0..<n] = [0..<i] @ i # [Suc i..<n]"
    using i by (metis le_add2 le_add_same_cancel2 less_imp_add_positive upt_add_eq_append
        upt_conv_Cons)
  then have "concat (map f [0..<n]) = concat (map f [0..<i]) @ f i @ concat (map f [Suc i..<n])"
    by simp
  moreover have "length (concat (map f [0..<i])) = i * k"
    using len i by (intro length_concat_blocks) simp
  ultimately show ?thesis by simp
qed

lemma take_drop_concat_blocks:
  assumes len: "\<And>j. j < n \<Longrightarrow> length (f j) = k" and i: "i < n"
  shows "take k (drop (i * k) (concat (map f [0..<n]))) = f i"
  using drop_concat_blocks [OF len i] len [OF i] by simp

lemma length_material_pixel [simp]: "length (material_pixel m) = 4"
  by (simp add: material_pixel_def Let_def)

lemma pixel_at_raster_of:
  assumes len: "\<And>x y. length (p x y) = 4" and x: "x < w" and y: "y < h"
  shows "take 4 (drop ((y * w + x) * 4) (raster_of p w h)) = p x y"
proof -
  let ?row = "\<lambda>y. concat (map (\<lambda>x. p x y) [0..<w])"
  have rowlen: "\<And>j. length (?row j) = w * 4"
    using len by (intro length_concat_blocks) simp
  have "drop (y * (w * 4)) (raster_of p w h) = ?row y @ concat (map ?row [Suc y..<h])"
    unfolding raster_of_def using rowlen y by (intro drop_concat_blocks) auto
  then have "drop ((y * w + x) * 4) (raster_of p w h)
      = drop (x * 4) (?row y @ concat (map ?row [Suc y..<h]))"
    by (metis add.commute add_mult_distrib drop_drop mult.assoc)
  also have "\<dots> = drop (x * 4) (?row y) @ concat (map ?row [Suc y..<h])"
    using rowlen [of y] x by simp
  finally have "take 4 (drop ((y * w + x) * 4) (raster_of p w h))
      = take 4 (drop (x * 4) (?row y) @ concat (map ?row [Suc y..<h]))"
    by simp
  also have "\<dots> = take 4 (drop (x * 4) (?row y))"
    using rowlen [of y] x by simp
  also have "\<dots> = p x y"
    using take_drop_concat_blocks [of w "\<lambda>x. p x y" 4 x] len x by simp
  finally show ?thesis .
qed

lemma concat_replicate_mult:
  "concat (replicate (w * h) px) = concat (replicate h (concat (replicate w px)))"
  by (induction h) (simp_all add: replicate_add)


text \<open>The working coordinates of the pixel \<open>(x, y)\<close> after the operations.\<close>

lemma pixel_finite:
  assumes "layers \<noteq> []" and "length layers < 2 ^ 32"
    and "snd (run_ops (length layers) ops
          (Num (real x) / Num (real w), Num (real y) / Num (real h))) = Num a"
  shows "layer_index (length layers) ops w h x y
       = Num (of_int \<lfloor>fmod (fmod a 1 + 1) 1 * real (length layers)\<rfloor>)"
    and "pixel layers ops w h x y
       = Inr (material_pixel (MATERIALS (layers !
           nat \<lfloor>fmod (fmod a 1 + 1) 1 * real (length layers)\<rfloor>)))"
proof -
  show idx: "layer_index (length layers) ops w h x y
       = Num (of_int \<lfloor>fmod (fmod a 1 + 1) 1 * real (length layers)\<rfloor>)"
    unfolding layer_index_def using assms(3,2) by (rule layer_index_finite)
  have "0 < length layers"
    using assms(1) by simp
  then show "pixel layers ops w h x y
       = Inr (material_pixel (MATERIALS (layers !
           nat \<lfloor>fmod (fmod a 1 + 1) 1 * real (length layers)\<rfloor>)))"
    unfolding pixel_def idx by (simp only: layer_material_finite sum.case)
qed

lemma pixel_not_finite:
  assumes "\<not> is_finite (snd (run_ops (length layers) ops
          (Num (real x) / Num (real w), Num (real y) / Num (real h))))"
  shows "pixel layers ops w h x y = Inl TypeError"
proof -
  have "wrap (snd (run_ops (length layers) ops
          (Num (real x) / Num (real w), Num (real y) / Num (real h)))) = NaN"
    using assms by (rule wrap_not_finite)
  then show ?thesis
    by (simp add: pixel_def layer_index_def layer_index_uv_def)
qed


text \<open>Two operation lists that move \<open>vv\<close> alike at every pixel give the same raster.\<close>

lemma run_ops_append: "run_ops n (ops @ ops') c = run_ops n ops' (run_ops n ops c)"
  by (induction ops arbitrary: c) auto

lemma traverse_cong:
  "(\<And>a. a \<in> set as \<Longrightarrow> f a = g a) \<Longrightarrow> traverse f as = traverse g as"
proof (induction as)
  case Nil
  show ?case by simp
next
  case (Cons a as)
  have "f a = g a"
    using Cons.prems by simp
  moreover have "traverse f as = traverse g as"
    using Cons by simp
  ultimately show ?case
    by (simp split: sum.splits)
qed

lemma generatePattern_cong:
  assumes "\<And>x y. x < w \<Longrightarrow> y < h \<Longrightarrow>
      snd (run_ops (length layers) ops (Num (real x) / Num (real w), Num (real y) / Num (real h)))
      = snd (run_ops (length layers) ops' (Num (real x) / Num (real w), Num (real y) / Num (real h)))"
  shows "generatePattern ctx layers ops w h = generatePattern ctx layers ops' w h"
proof -
  have px: "pixel layers ops w h x y = pixel layers ops' w h x y" if "x < w" "y < h" for x y
    using assms [OF that] by (simp add: pixel_def layer_index_def layer_index_uv_def)
  have "pixel_row layers ops w h y = pixel_row layers ops' w h y" if "y < h" for y
  proof -
    have "traverse (\<lambda>x. pixel layers ops w h x y) [0..<w]
        = traverse (\<lambda>x. pixel layers ops' w h x y) [0..<w]"
      using px that by (intro traverse_cong) simp
    then show ?thesis
      by (simp add: pixel_row_def)
  qed
  then have "traverse (pixel_row layers ops w h) [0..<h]
      = traverse (pixel_row layers ops' w h) [0..<h]"
    by (intro traverse_cong) simp
  then show ?thesis
    by (simp only: generatePattern_def)
qed

lemma run_ops_without_addSheets: "run_ops n (without_addSheets ops) c = run_ops n ops c"
proof (induction ops arbitrary: c)
  case Nil
  show ?case by (simp add: without_addSheets_def)
next
  case (Cons op ops)
  then show ?case
    by (cases op; cases c) (simp_all add: without_addSheets_def)
qed



lemma unit_coordinate:
  assumes "y < h"
  shows "Num (real y) / Num (real h) = Num (real y / real h)"
proof -
  have "0 \<le> real y / real h" "real y / real h < 1"
    using assms by simp_all
  then have "\<bar>real y / real h\<bar> \<le> 2 ^ 32"
    by simp
  then have "overflow (real y / real h) = Num (real y / real h)"
    by (rule overflow_small)
  then show ?thesis
    using assms by simp
qed

subsection \<open>Plain banding\<close>



subsection \<open>The wrap and the lookup\<close>

text \<open>Where the working coordinate is finite, the wrap keeps the lookup in range.\<close>

lemma wrapped_index_in_range_if_finite:
  assumes "layers \<noteq> []" and "length layers < 2 ^ 32"
    and "snd (run_ops (length layers) ops
          (Num (real x) / Num (real width), Num (real y) / Num (real height))) = Num a"
  shows "\<exists>w i. wrap (Num a) = Num w \<and> 0 \<le> w \<and> w < 1
      \<and> layer_index (length layers) ops width height x y = Num (of_int i)
      \<and> 0 \<le> i \<and> i < int (length layers)
      \<and> pixel layers ops width height x y = Inr (material_pixel (MATERIALS (layers ! nat i)))"
proof -
  let ?w = "fmod (fmod a 1 + 1) 1"
  let ?i = "\<lfloor>?w * real (length layers)\<rfloor>"
  have w: "0 \<le> ?w" "?w < 1"
    using wrap_real_bounds by auto
  have "0 \<le> ?w * real (length layers)"
    using w by simp
  moreover have "?w * real (length layers) < real (length layers)"
    using w assms(1) by simp
  ultimately have "0 \<le> ?i" "?i < int (length layers)"
    by (simp_all add: floor_less_iff)
  then show ?thesis
    using w wrap_Num [of a] pixel_finite [OF assms] by blast
qed

lemma js_pow2_overflow:
  assumes "1024 \<le> k"
  shows "js_pow2 k = PosInfinity"
proof -
  have "(2::real) ^ 1024 \<le> 2 ^ nat k"
    using assms by (intro power_increasing) simp_all
  then show ?thesis
    by (simp add: js_pow2_def overflow_def)
qed

lemma traverse_first_error: "f a = Inl e \<Longrightarrow> traverse f (a # as) = Inl e"
  by simp

text \<open>
  Claim C2 fails on the code where the working coordinate is not finite. With a stack
  that is not empty, a raster of positive width and height and the single operation
  \<open>Fold\<close> by \<open>1024\<close> or more, \<open>Math.pow(2, times)\<close> is \<open>Infinity\<close> and the working
  coordinate of the first pixel, \<open>0 * Infinity\<close>, is \<open>NaN\<close>; so are its wrap and the
  layer index, the lookup \<open>layers[NaN]\<close> finds nothing and the generator throws a
  \<open>TypeError\<close>.
\<close>

theorem fold_overflow_breaks_lookup:
  assumes "layers \<noteq> []" and "0 < width" and "0 < height" and "1024 \<le> ntimes"
  shows "layer_index (length layers) [Fold ntimes] width height 0 0 = NaN
    \<and> generatePattern True layers [Fold ntimes] width height = Inl TypeError"
proof -
  let ?c = "(Num (real 0) / Num (real width), Num (real 0) / Num (real height))"
  have "1024 \<le> \<lfloor>ntimes\<rfloor>"
    using assms(4) by (simp add: le_floor_iff)
  then have "js_pow2 (max 0 \<lfloor>ntimes\<rfloor>) = PosInfinity"
    by (intro js_pow2_overflow) simp
  moreover have "Num (real 0) / Num (real height) = Num 0"
    using unit_coordinate [OF assms(3)] by simp
  ultimately have vv: "snd (run_ops (length layers) [Fold ntimes] ?c) = NaN"
    by simp
  then have idx: "layer_index (length layers) [Fold ntimes] width height 0 0 = NaN"
    by (simp add: layer_index_def layer_index_uv_def wrap_def)
  have "pixel layers [Fold ntimes] width height 0 0 = Inl TypeError"
    using vv by (intro pixel_not_finite) simp
  moreover have "[0..<width] = 0 # [1..<width]"
    using assms(2) by (simp add: upt_conv_Cons)
  ultimately have "pixel_row layers [Fold ntimes] width height 0 = Inl TypeError"
    by (simp add: pixel_row_def)
  moreover have "[0..<height] = 0 # [1..<height]"
    using assms(3) by (simp add: upt_conv_Cons)
  ultimately have "traverse (pixel_row layers [Fold ntimes] width height) [0..<height]
      = Inl TypeError"
    by simp
  then show ?thesis
    using idx assms(1,2,3) by (simp add: generatePattern_def)
qed

theorem fold_overflow_breaks_lookup_witness:
  "layer_index (length [M1084]) [Fold 1024] 1 1 0 0 = NaN
   \<and> generatePattern True [M1084] [Fold 1024] 1 1 = Inl TypeError"
  using fold_overflow_breaks_lookup [of "[M1084]" 1 1 1024] by simp

subsection \<open>The empty stack\<close>

text \<open>
  Claim C3. With an empty stack the generator returns, for every operation list, a canvas
  of the requested width and height whose every pixel is the background \<open>#111\<close>, opaque:
  it does not fail, and the operations play no part in the result.
\<close>

theorem empty_stack_background:
  "generatePattern True [] ops width height
      = Inr \<lparr>cwidth = width, cheight = height,
             cdata = concat (replicate (width * height) [0x11, 0x11, 0x11, 255])\<rparr>
   \<and> (\<forall>x y. x < width \<and> y < height \<longrightarrow>
         pixel_at \<lparr>cwidth = width, cheight = height,
             cdata = concat (replicate (width * height) [0x11, 0x11, 0x11, 255])\<rparr> x y
           = [0x11, 0x11, 0x11, 255])"
proof -
  have "pixel_at \<lparr>cwidth = width, cheight = height,
             cdata = concat (replicate (width * height) [0x11, 0x11, 0x11, 255])\<rparr> x y
           = [0x11, 0x11, 0x11, 255]" if "x < width" "y < height" for x y
  proof -
    have "concat (replicate (width * height) [0x11, 0x11, 0x11, 255 :: 8 word])
        = raster_of (\<lambda>x y. [0x11, 0x11, 0x11, 255]) width height"
      unfolding raster_of_def by (simp add: map_replicate_const concat_replicate_mult)
    then show ?thesis
      unfolding pixel_at_def
      using pixel_at_raster_of [of "\<lambda>x y. [0x11, 0x11, 0x11, 255]" x width y height] that
      by simp
  qed
  then show ?thesis
    by (simp add: generatePattern_def createCanvas_def fillRect_all_def background_def)
qed

theorem empty_stack_background_witness:
  "generatePattern True [] [Fold 2, Twist 1] 2 1
      = Inr \<lparr>cwidth = 2, cheight = 1, cdata = [17, 17, 17, 255, 17, 17, 17, 255]\<rparr>
   \<and> pixel_at \<lparr>cwidth = 2, cheight = 1, cdata = [17, 17, 17, 255, 17, 17, 17, 255]\<rparr> 1 0
       = [17, 17, 17, 255]"
  using empty_stack_background [of "[Fold 2, Twist 1]" 2 1] by (simp add: numeral_2_eq_2)


subsection \<open>The ladder transform\<close>

text \<open>
  Claim C4, as amended. The ladder transform of the code is the transform of the
  specification with \<open>max(0.0001, spacing)\<close> in the place of \<open>spacing\<close>; so for every
  spacing of at least \<open>0.0001\<close>, every depth and every working coordinates it computes
  \<open>t = (uu / spacing) mod 1\<close>, \<open>tri = 1 - |0.5 - t| * 2\<close> and \<open>vv - tri * 0.25 * depth\<close>,
  and leaves \<open>uu\<close> as it was.
\<close>

theorem ladder_transform_floored_spacing:
  "apply_op n (Ladder spacing depth) (uu, vv) = ladder_spec (max 0.0001 spacing) depth (uu, vv)
   \<and> (0.0001 \<le> spacing \<longrightarrow>
        apply_op n (Ladder spacing depth) (uu, vv) = ladder_spec spacing depth (uu, vv))"
  by (simp add: ladder_spec_def Let_def max_def)

theorem ladder_transform_floored_spacing_witness:
  "apply_op 2 (Ladder (1 / 2) 1) (Num (1 / 8), Num 1) = (Num (1 / 8), Num (7 / 8))
   \<and> ladder_spec (1 / 2) 1 (Num (1 / 8), Num 1) = (Num (1 / 8), Num (7 / 8))"
  using ladder_transform_floored_spacing [of 2 "1 / 2" 1 "Num (1 / 8)" "Num 1"]
  by (simp add: ladder_spec_def Let_def minus_number_def overflow_small fmod_def js_trunc_def)

text \<open>
  Claim C4 as it is written fails below the floor: with spacing \<open>0.00005\<close>, depth \<open>1\<close>
  and \<open>uu = 0.000025\<close> the specification's transform takes \<open>0.25\<close> from \<open>vv\<close>, the code
  \<open>0.125\<close>.
\<close>

theorem ladder_transform_small_spacing_counterexample:
  "\<not> ((0::real) < 1 / 20000 \<and> (0::real) \<le> 1 \<longrightarrow>
       apply_op 1 (Ladder (1 / 20000) 1) (Num (1 / 40000), Num 0)
         = ladder_spec (1 / 20000) 1 (Num (1 / 40000), Num 0))"
  by (simp add: ladder_spec_def Let_def minus_number_def overflow_small fmod_def js_trunc_def)

subsection \<open>Operations that do not touch the raster\<close>

text \<open>
  Claim C8. For every stack, operation list, width and height, the raster is the raster of
  the operation list with every \<open>addSheets\<close> entry removed; and an \<open>addSheets\<close> entry
  inserted at any place of an operation list leaves the raster as it was.
\<close>

theorem addSheets_do_not_change_raster:
  "generatePattern ctx layers ops w h = generatePattern ctx layers (without_addSheets ops) w h
   \<and> generatePattern ctx layers (ops @ AddSheets m k # ops') w h
       = generatePattern ctx layers (ops @ ops') w h"
proof
  show "generatePattern ctx layers ops w h
      = generatePattern ctx layers (without_addSheets ops) w h"
    by (rule generatePattern_cong) (simp only: run_ops_without_addSheets)
  show "generatePattern ctx layers (ops @ AddSheets m k # ops') w h
      = generatePattern ctx layers (ops @ ops') w h"
  proof (rule generatePattern_cong)
    fix x y
    let ?c = "(Num (real x) / Num (real w), Num (real y) / Num (real h))"
    obtain a b where ab: "run_ops (length layers) ops ?c = (a, b)"
      by (cases "run_ops (length layers) ops ?c")
    show "snd (run_ops (length layers) (ops @ AddSheets m k # ops') ?c)
        = snd (run_ops (length layers) (ops @ ops') ?c)"
      by (simp only: run_ops_append ab run_ops.simps apply_op.simps)
  qed
qed

theorem addSheets_do_not_change_raster_witness:
  "generatePattern True [M1084, M15N20] [AddSheets M1084 3, Fold 1, AddSheets M15N20 3] 2 2
     = generatePattern True [M1084, M15N20] [Fold 1] 2 2
   \<and> generatePattern True [M1084, M15N20] ([Fold 1] @ AddSheets M1095 2 # [Stretch 2]) 2 2
     = generatePattern True [M1084, M15N20] ([Fold 1] @ [Stretch 2]) 2 2"
proof -
  have "without_addSheets [AddSheets M1084 3, Fold 1, AddSheets M15N20 3] = [Fold 1]"
    by (simp add: without_addSheets_def)
  then show ?thesis
    using addSheets_do_not_change_raster [where ctx = True and layers = "[M1084, M15N20]"
        and w = 2 and h = 2 and ops = "[AddSheets M1084 3, Fold 1, AddSheets M15N20 3]"]
      addSheets_do_not_change_raster [where ctx = True and layers = "[M1084, M15N20]"
        and ops = "[Fold 1]" and m = M1095 and k = 2 and ops' = "[Stretch 2]"
        and w = 2 and h = 2]
    by metis
qed














subsection \<open>The fold scenario\<close>













section \<open>Properties of the instruction formatter\<close>




section \<open>Properties of the share link\<close>

subsection \<open>Escaping and unescaping\<close>












subsection \<open>Base64 there and back\<close>










subsection \<open>Decoding percent escapes\<close>

lemma uri_tokens_literal:
  "c \<noteq> CHR ''%'' \<Longrightarrow>
   uri_tokens (c # rest)
     = (case uri_tokens rest of Inl e \<Rightarrow> Inl e | Inr ts \<Rightarrow> Inr (Literal c # ts))"
  by simp















subsection \<open>The round trip\<close>




end
